theory Spec2Isabelle
  imports Main "HOL-Library.Mapping" "HOL-Library.AList_Mapping"
begin

section \<open>The cover art cache of library/coverartcache.cpp\<close>

text \<open>
  The class \<^verbatim>\<open>CoverArtCache\<close> lives on one thread (the coordinator). Its members, the
  process-wide \<^verbatim>\<open>QPixmapCache\<close>, the signals it emits, the jobs it hands to
  \<^verbatim>\<open>QtConcurrent::run\<close> and the calls it makes on its collaborators are one state
  record; every method takes the state and returns the new one. The two job bodies
  (\<^verbatim>\<open>searchImage\<close>, \<^verbatim>\<open>loadImage\<close>) touch no member, so they are functions of their
  arguments that also return the calls they made. The completion slots
  (\<^verbatim>\<open>imageFound\<close>, \<^verbatim>\<open>imageLoaded\<close>) read \<^verbatim>\<open>watcher->result()\<close>; here the result is
  their argument.
\<close>

subsection \<open>Data\<close>

text \<open>A \<^verbatim>\<open>QImage\<close> or \<^verbatim>\<open>QPixmap\<close> is either null or holds pixels of some type \<open>'p\<close>.\<close>

type_synonym 'p QImage = "'p option"
type_synonym 'p QPixmap = "'p option"

text \<open>\<^verbatim>\<open>pixmap.convertFromImage(img)\<close>: a null image gives a null pixmap.\<close>

definition convertFromImage :: "'p QImage \<Rightarrow> 'p QPixmap" where
  "convertFromImage img = img"

record QSize =
  width :: int
  height :: int

text \<open>\<^verbatim>\<open>QSize::isNull\<close>: both the width and the height are 0.\<close>

definition QSize_isNull :: "QSize \<Rightarrow> bool" where
  "QSize_isNull sz = (width sz = 0 \<and> height sz = 0)"

text \<open>
  \<^verbatim>\<open>CoverInfo\<close> is what a request carries; \<^verbatim>\<open>CoverArtDAO::CoverArtInfo\<close> has the same four
  fields and the three search hints that \<^verbatim>\<open>searchImage\<close> reads.
\<close>

record CoverInfo =
  trackId :: int
  coverLocation :: string
  hash :: string
  trackLocation :: string

record CoverArtInfo = CoverInfo +
  trackDirectory :: string
  trackBaseName :: string
  album :: string

record 'p FutureResult =
  res_trackId :: int
  res_coverLocation :: string
  res_hash :: string
  res_croppedSize :: QSize
  res_issueRepaint :: bool
  res_img :: "'p QImage"

text \<open>The methods of the two stores that return a value; the \<^verbatim>\<open>void\<close> ones are calls only.\<close>

record CoverArtDAO =
  getCoverArtInfo :: "int \<Rightarrow> CoverArtInfo"
  saveCoverArt :: "string \<Rightarrow> string \<Rightarrow> int"
  saveCoverArtBatch :: "(int, string \<times> string) mapping \<Rightarrow> (int \<times> int) set"

record TrackDAO =
  getTrackLocation :: "int \<Rightarrow> string"

text \<open>Every call that leaves the class: the two stores, \<^verbatim>\<open>CoverArtUtils\<close>, and Qt's file access.\<close>

datatype call =
    TrackDAO_updateCoverArt int int
  | TrackDAO_updateCoverArtBatch "(int \<times> int) set"
  | TrackDAO_getTrackLocation int
  | CoverArtDAO_saveCoverArt string string
  | CoverArtDAO_saveCoverArtBatch "(int, string \<times> string) mapping"
  | CoverArtDAO_getCoverArtInfo int
  | Utils_extractEmbeddedCover string
  | Utils_maybeResizeImage int
  | Utils_cropImage QSize
  | Utils_calculateHash
  | Utils_searchInTrackDirectory string string string
  | QImage_fromFile string
  | QFile_exists string

datatype 'p signal =
    pixmapFound int "'p QPixmap"
  | requestRepaint

text \<open>A job given to \<^verbatim>\<open>QtConcurrent::run\<close>, named after the slot connected to its watcher.\<close>

datatype job =
    SearchJob CoverArtInfo QSize bool
  | LoadJob CoverArtInfo QSize bool

text \<open>
  What the code calls but does not define: the image utilities of \<^verbatim>\<open>CoverArtUtils\<close>, the
  \<^verbatim>\<open>QImage(path)\<close> constructor, \<^verbatim>\<open>QFile::exists\<close>, and the replacement policy of
  \<^verbatim>\<open>QPixmapCache::insert\<close>, which answers whether the pixmap was accepted and gives the
  cache after the call.
\<close>

record 'p env =
  extractEmbeddedCover :: "string \<Rightarrow> 'p QImage"
  maybeResizeImage :: "'p QImage \<Rightarrow> int \<Rightarrow> 'p QImage"
  cropImage :: "'p QImage \<Rightarrow> QSize \<Rightarrow> 'p QImage"
  calculateHash :: "'p QImage \<Rightarrow> string"
  searchInTrackDirectory :: "string \<Rightarrow> string \<Rightarrow> string \<Rightarrow> string"
  QImage_load :: "string \<Rightarrow> 'p QImage"
  QFile_exists_at :: "string \<Rightarrow> bool"
  QPixmapCache_insert ::
    "string \<Rightarrow> 'p QPixmap \<Rightarrow> (string \<rightharpoonup> 'p QPixmap) \<Rightarrow> bool \<times> (string \<rightharpoonup> 'p QPixmap)"

record 'p CoverArtCache =
  m_pCoverArtDAO :: "CoverArtDAO option"
  m_pTrackDAO :: "TrackDAO option"
  m_queueOfUpdates :: "(int, string \<times> string) mapping"
  m_runningIds :: "int set"
  pixmapCache :: "string \<rightharpoonup> 'p QPixmap"
  calls :: "call list"
  emitted :: "'p signal list"
  dispatched :: "job list"

definition kMaxCoverSize :: int where
  "kMaxCoverSize = 300"

subsection \<open>Cache keys\<close>

text \<open>\<^verbatim>\<open>QString::arg(int)\<close> writes the number in base 10, with a minus sign below zero.\<close>

function string_of_nat :: "nat \<Rightarrow> string" where
  "string_of_nat n =
     (if n < 10 then [''0123456789'' ! n]
      else string_of_nat (n div 10) @ [''0123456789'' ! (n mod 10)])"
  by pat_completeness auto
termination
  by (relation "measure (\<lambda>n. n)") auto

declare string_of_nat.simps [simp del]

definition QString_number :: "int \<Rightarrow> string" where
  "QString_number i =
     (if i < 0 then CHR ''-'' # string_of_nat (nat (- i)) else string_of_nat (nat i))"

text \<open>
  \<^verbatim>\<open>QString("CoverArtCache_%1_%2x%3").arg(hash).arg(w).arg(h)\<close>, for a hash that holds no
  place marker of its own (hashes are checksums written as numbers).
\<close>

definition makeCacheKey :: "string \<Rightarrow> QSize \<Rightarrow> string" where
  "makeCacheKey h sz =
     ''CoverArtCache_'' @ h @ ''_'' @ QString_number (width sz) @ ''x'' @ QString_number (height sz)"

text \<open>
  \<^verbatim>\<open>QPixmapCache::find(key, &pixmap)\<close>: whether the key is there, and the pixmap, which
  stays the null pixmap it was constructed as when the key is missing.
\<close>

definition QPixmapCache_find :: "string \<Rightarrow> (string \<rightharpoonup> 'p QPixmap) \<Rightarrow> bool \<times> 'p QPixmap" where
  "QPixmapCache_find key c = (case c key of None \<Rightarrow> (False, None) | Some pm \<Rightarrow> (True, pm))"

subsection \<open>Small state updates\<close>

definition called :: "call list \<Rightarrow> 'p CoverArtCache \<Rightarrow> 'p CoverArtCache" where
  "called cs s = s\<lparr>calls := calls s @ cs\<rparr>"

definition emit :: "'p signal list \<Rightarrow> 'p CoverArtCache \<Rightarrow> 'p CoverArtCache" where
  "emit sigs s = s\<lparr>emitted := emitted s @ sigs\<rparr>"

subsection \<open>The methods\<close>

definition setCoverArtDAO :: "CoverArtDAO option \<Rightarrow> 'p CoverArtCache \<Rightarrow> 'p CoverArtCache" where
  "setCoverArtDAO coverdao s = s\<lparr>m_pCoverArtDAO := coverdao\<rparr>"

definition setTrackDAO :: "TrackDAO option \<Rightarrow> 'p CoverArtCache \<Rightarrow> 'p CoverArtCache" where
  "setTrackDAO trackdao s = s\<lparr>m_pTrackDAO := trackdao\<rparr>"

text \<open>\<^verbatim>\<open>QHash::value\<close> gives a default-constructed pair for a missing key.\<close>

definition trackInDBHash :: "'p CoverArtCache \<Rightarrow> int \<Rightarrow> string" where
  "trackInDBHash s tid =
     fst (case Mapping.lookup (m_queueOfUpdates s) tid of None \<Rightarrow> ([], []) | Some v \<Rightarrow> v)"

text \<open>
  \<^verbatim>\<open>updateDB(forceUpdate)\<close>; the slot \<^verbatim>\<open>imageFound\<close> calls it with no argument, which is
  the check against the threshold, and the destructor calls it with \<^verbatim>\<open>true\<close>.
\<close>

definition updateDB :: "bool \<Rightarrow> 'p CoverArtCache \<Rightarrow> 'p CoverArtCache" where
  "updateDB forceUpdate s =
     (case m_pCoverArtDAO s of
        None \<Rightarrow> s
      | Some cdao \<Rightarrow>
          (case m_pTrackDAO s of
             None \<Rightarrow> s
           | Some tdao \<Rightarrow>
               if \<not> forceUpdate \<and> Mapping.size (m_queueOfUpdates s) < 500 then s
               else
                 let covers = saveCoverArtBatch cdao (m_queueOfUpdates s);
                     s1 = called [CoverArtDAO_saveCoverArtBatch (m_queueOfUpdates s),
                                  TrackDAO_updateCoverArtBatch covers] s
                 in s1\<lparr>m_queueOfUpdates := Mapping.empty\<rparr>))"

text \<open>
  The guard of \<^verbatim>\<open>changeCoverArt\<close> is one disjunction of three tests without effect; it
  is written here as the cases of the two pointers, then the test of the id.
\<close>

definition changeCoverArt ::
  "'p env \<Rightarrow> int \<Rightarrow> string \<Rightarrow> 'p CoverArtCache \<Rightarrow> bool \<times> 'p CoverArtCache" where
  "changeCoverArt e tid newCoverLocation s =
     (case m_pCoverArtDAO s of
        None \<Rightarrow> (False, s)
      | Some cdao \<Rightarrow>
          (case m_pTrackDAO s of
             None \<Rightarrow> (False, s)
           | Some tdao \<Rightarrow>
               if tid < 1 then (False, s)
               else
                 let s1 = s\<lparr>m_queueOfUpdates := Mapping.delete tid (m_queueOfUpdates s)\<rparr> in
                 if newCoverLocation = [] then
                   (True, called [TrackDAO_updateCoverArt tid (- 1)] s1)
                 else
                   let (img, s2) =
                         (if newCoverLocation = ''ID3TAG'' then
                            let trackLoc = getTrackLocation tdao tid
                            in (extractEmbeddedCover e trackLoc,
                                called [TrackDAO_getTrackLocation tid,
                                        Utils_extractEmbeddedCover trackLoc] s1)
                          else
                            (QImage_load e newCoverLocation,
                             called [QImage_fromFile newCoverLocation] s1))
                   in
                   if Option.is_none img then (False, s2)
                   else
                     let img' = maybeResizeImage e img kMaxCoverSize;
                         h = calculateHash e img';
                         coverId = saveCoverArt cdao newCoverLocation h;
                         s3 = called [Utils_maybeResizeImage kMaxCoverSize, Utils_calculateHash,
                                      CoverArtDAO_saveCoverArt newCoverLocation h,
                                      TrackDAO_updateCoverArt tid coverId] s2
                     in
                     (case QPixmapCache_find h (pixmapCache s3) of
                        (True, pixmap) \<Rightarrow> (True, emit [pixmapFound tid pixmap, requestRepaint] s3)
                      | (False, _) \<Rightarrow>
                          let pixmap = convertFromImage img';
                              (ok, c') = QPixmapCache_insert e h pixmap (pixmapCache s3);
                              s4 = s3\<lparr>pixmapCache := c'\<rparr>
                          in if ok then (True, emit [pixmapFound tid pixmap, requestRepaint] s4)
                             else (True, s4))))"

text \<open>
  The first lines of \<^verbatim>\<open>requestPixmap\<close> after the guards: a cover found for the track
  and still waiting in the queue replaces the location and the hash of the request.
\<close>

definition pendingOverride :: "'p CoverArtCache \<Rightarrow> CoverInfo \<Rightarrow> CoverInfo" where
  "pendingOverride s requestInfo =
     (case Mapping.lookup (m_queueOfUpdates s) (trackId requestInfo) of
        None \<Rightarrow> requestInfo
      | Some upd \<Rightarrow> requestInfo\<lparr>coverLocation := fst upd, hash := snd upd\<rparr>)"

text \<open>
  The choice of the job is one test in the source,
  \<^verbatim>\<open>hash.isEmpty() || (coverLocation != "ID3TAG" && !QFile::exists(coverLocation))\<close>.
  It is written as three branches so that the call of \<^verbatim>\<open>QFile::exists\<close> is recorded
  only where the short-circuit operators make it: the first two branches dispatch the same
  search job, the third the load job.
\<close>

definition requestPixmap ::
  "'p env \<Rightarrow> CoverInfo \<Rightarrow> QSize \<Rightarrow> bool \<Rightarrow> bool \<Rightarrow> 'p CoverArtCache
     \<Rightarrow> 'p QPixmap \<times> 'p CoverArtCache" where
  "requestPixmap e requestInfo croppedSize onlyCached issueRepaint s =
     (case m_pCoverArtDAO s of
        None \<Rightarrow> (None, s)
      | Some cdao \<Rightarrow>
          if trackId requestInfo < 1 then (None, s)
          else if trackId requestInfo \<in> m_runningIds s then (None, s)
          else
            let info = pendingOverride s requestInfo;
                cacheKey = makeCacheKey (hash info) croppedSize
            in
            (case QPixmapCache_find cacheKey (pixmapCache s) of
               (True, pixmap) \<Rightarrow>
                 (pixmap, if \<not> issueRepaint then emit [pixmapFound (trackId info) pixmap] s else s)
             | (False, _) \<Rightarrow>
                 if onlyCached then (None, s)
                 else if hash info = [] then
                   (None,
                    (called [CoverArtDAO_getCoverArtInfo (trackId info)] s)
                      \<lparr>dispatched := dispatched s @
                         [SearchJob (getCoverArtInfo cdao (trackId info)) croppedSize issueRepaint],
                       m_runningIds := insert (trackId info) (m_runningIds s)\<rparr>)
                 else if coverLocation info \<noteq> ''ID3TAG'' \<and> \<not> QFile_exists_at e (coverLocation info) then
                   (None,
                    (called [QFile_exists (coverLocation info),
                             CoverArtDAO_getCoverArtInfo (trackId info)] s)
                      \<lparr>dispatched := dispatched s @
                         [SearchJob (getCoverArtInfo cdao (trackId info)) croppedSize issueRepaint],
                       m_runningIds := insert (trackId info) (m_runningIds s)\<rparr>)
                 else
                   (None,
                    (called (if coverLocation info \<noteq> ''ID3TAG''
                             then [QFile_exists (coverLocation info)] else []) s)
                      \<lparr>dispatched := dispatched s @
                         [LoadJob \<lparr>trackId = trackId info, coverLocation = coverLocation info,
                                   hash = hash info, trackLocation = trackLocation info,
                                   trackDirectory = [], trackBaseName = [], album = []\<rparr>
                            croppedSize issueRepaint],
                       m_runningIds := insert (trackId info) (m_runningIds s)\<rparr>)))"

definition loadImage ::
  "'p env \<Rightarrow> CoverArtInfo \<Rightarrow> QSize \<Rightarrow> bool \<Rightarrow> 'p FutureResult \<times> call list" where
  "loadImage e coverInfo croppedSize issueRepaint =
     (let (img1, cs1) =
            (if coverLocation coverInfo = ''ID3TAG''
             then (extractEmbeddedCover e (trackLocation coverInfo),
                   [Utils_extractEmbeddedCover (trackLocation coverInfo)])
             else (QImage_load e (coverLocation coverInfo),
                   [QImage_fromFile (coverLocation coverInfo)]));
          (img2, cs2) =
            (if QSize_isNull croppedSize
             then (maybeResizeImage e img1 kMaxCoverSize, cs1 @ [Utils_maybeResizeImage kMaxCoverSize])
             else (cropImage e img1 croppedSize, cs1 @ [Utils_cropImage croppedSize]))
      in (\<lparr>res_trackId = trackId coverInfo, res_coverLocation = coverLocation coverInfo,
           res_hash = hash coverInfo, res_croppedSize = croppedSize,
           res_issueRepaint = issueRepaint, res_img = img2\<rparr>, cs2))"

definition searchImage ::
  "'p env \<Rightarrow> CoverArtInfo \<Rightarrow> QSize \<Rightarrow> bool \<Rightarrow> 'p FutureResult \<times> call list" where
  "searchImage e coverInfo croppedSize issueRepaint =
     (let img0 = extractEmbeddedCover e (trackLocation coverInfo);
          cs0 = [Utils_extractEmbeddedCover (trackLocation coverInfo)];
          (loc1, img1, cs1) =
            (if \<not> Option.is_none img0
             then (''ID3TAG'', maybeResizeImage e img0 kMaxCoverSize,
                   cs0 @ [Utils_maybeResizeImage kMaxCoverSize])
             else ([], img0, cs0));
          (loc2, img2, cs2) =
            (if Option.is_none img1
             then
               let found = searchInTrackDirectory e (trackDirectory coverInfo)
                             (trackBaseName coverInfo) (album coverInfo)
               in (found, maybeResizeImage e (QImage_load e found) kMaxCoverSize,
                   cs1 @ [Utils_searchInTrackDirectory (trackDirectory coverInfo)
                            (trackBaseName coverInfo) (album coverInfo),
                          QImage_fromFile found, Utils_maybeResizeImage kMaxCoverSize])
             else (loc1, img1, cs1));
          h = calculateHash e img2;
          (img3, cs3) =
            (if \<not> QSize_isNull croppedSize
             then (cropImage e img2 croppedSize,
                   cs2 @ [Utils_calculateHash, Utils_cropImage croppedSize])
             else (img2, cs2 @ [Utils_calculateHash]))
      in (\<lparr>res_trackId = trackId coverInfo, res_coverLocation = loc2,
           res_hash = h, res_croppedSize = croppedSize,
           res_issueRepaint = issueRepaint, res_img = img3\<rparr>, cs3))"

definition imageLoaded :: "'p env \<Rightarrow> 'p FutureResult \<Rightarrow> 'p CoverArtCache \<Rightarrow> 'p CoverArtCache" where
  "imageLoaded e res s =
     (let cacheKey = makeCacheKey (res_hash res) (res_croppedSize res);
          pixmap0 = snd (QPixmapCache_find cacheKey (pixmapCache s));
          (pixmap, s1) =
            (if Option.is_none pixmap0 \<and> \<not> Option.is_none (res_img res)
             then (convertFromImage (res_img res),
                   s\<lparr>pixmapCache :=
                       snd (QPixmapCache_insert e cacheKey (convertFromImage (res_img res))
                              (pixmapCache s))\<rparr>)
             else (pixmap0, s));
          s2 = (if res_issueRepaint res then emit [requestRepaint] s1
                else emit [pixmapFound (res_trackId res) pixmap] s1)
      in s2\<lparr>m_runningIds := m_runningIds s2 - {res_trackId res}\<rparr>)"

definition imageFound :: "'p env \<Rightarrow> 'p FutureResult \<Rightarrow> 'p CoverArtCache \<Rightarrow> 'p CoverArtCache" where
  "imageFound e res s =
     (let cacheKey = makeCacheKey (res_hash res) (res_croppedSize res);
          pixmap0 = snd (QPixmapCache_find cacheKey (pixmapCache s));
          (pixmap, s1) =
            (if Option.is_none pixmap0
             then (convertFromImage (res_img res),
                   s\<lparr>pixmapCache :=
                       snd (QPixmapCache_insert e cacheKey (convertFromImage (res_img res))
                              (pixmapCache s))\<rparr>)
             else (pixmap0, s));
          s2 = (if res_issueRepaint res then emit [requestRepaint] s1
                else emit [pixmapFound (res_trackId res) pixmap] s1);
          s3 = (if Option.is_none (Mapping.lookup (m_queueOfUpdates s2) (res_trackId res))
                then updateDB False
                       (s2\<lparr>m_queueOfUpdates :=
                             Mapping.update (res_trackId res) (res_coverLocation res, res_hash res)
                               (m_queueOfUpdates s2)\<rparr>)
                else s2)
      in s3\<lparr>m_runningIds := m_runningIds s3 - {res_trackId res}\<rparr>)"

text \<open>The constructor leaves both stores unset; the destructor forces the flush.\<close>

definition CoverArtCache_new :: "(string \<rightharpoonup> 'p QPixmap) \<Rightarrow> 'p CoverArtCache" where
  "CoverArtCache_new c =
     \<lparr>m_pCoverArtDAO = None, m_pTrackDAO = None, m_queueOfUpdates = Mapping.empty,
      m_runningIds = {}, pixmapCache = c, calls = [], emitted = [], dispatched = []\<rparr>"


definition destroy :: "'p CoverArtCache \<Rightarrow> 'p CoverArtCache" where
  "destroy s = updateDB True s"

subsection \<open>A small library to run the code on\<close>

text \<open>
  One track, number 1, at \<^verbatim>\<open>/music/a.mp3\<close>, with no embedded cover and a cover file
  \<^verbatim>\<open>/music/cover.jpg\<close> beside it; track 2 at \<^verbatim>\<open>/music/b.mp3\<close> has an embedded
  cover as well; track 3 is filed under \<^verbatim>\<open>/empty\<close> and has no cover of either kind.
  Images are numbers, the hash of an image is its number written out, the
  null image hashes to the empty string, nothing is ever resized or cropped, and the
  pixmap cache accepts every pixmap.
\<close>

definition demo_env :: "nat env" where
  "demo_env =
     \<lparr>extractEmbeddedCover = (\<lambda>loc. if loc = ''/music/b.mp3'' then Some 7 else None),
      maybeResizeImage = (\<lambda>img n. img),
      cropImage = (\<lambda>img sz. img),
      calculateHash = (\<lambda>img. case img of None \<Rightarrow> [] | Some n \<Rightarrow> string_of_nat n),
      searchInTrackDirectory = (\<lambda>d b a. if d = ''/music'' then ''/music/cover.jpg'' else []),
      QImage_load = (\<lambda>path. if path = ''/music/cover.jpg'' then Some 9 else None),
      QFile_exists_at = (\<lambda>path. path = ''/music/cover.jpg''),
      QPixmapCache_insert = (\<lambda>key pm c. (True, c(key \<mapsto> pm)))\<rparr>"

definition demo_coverdao :: CoverArtDAO where
  "demo_coverdao =
     \<lparr>getCoverArtInfo =
        (\<lambda>tid. \<lparr>trackId = tid, coverLocation = [], hash = [],
                 trackLocation = (if tid = 2 then ''/music/b.mp3'' else ''/music/a.mp3''),
                 trackDirectory = (if tid = 3 then ''/empty'' else ''/music''), trackBaseName = (if tid = 2 then ''b'' else ''a''),
                 album = ''Album''\<rparr>),
      saveCoverArt = (\<lambda>loc h. 1),
      saveCoverArtBatch = (\<lambda>q. (\<lambda>tid. (tid, 1)) ` Mapping.keys q)\<rparr>"

definition demo_trackdao :: TrackDAO where
  "demo_trackdao =
     \<lparr>getTrackLocation = (\<lambda>tid. if tid = 2 then ''/music/b.mp3'' else ''/music/a.mp3'')\<rparr>"

definition null_size :: QSize where
  "null_size = \<lparr>width = 0, height = 0\<rparr>"

text \<open>A fresh cache over an empty pixmap cache, then with both stores set.\<close>

definition demo_fresh :: "nat CoverArtCache" where
  "demo_fresh = CoverArtCache_new Map.empty"

definition demo_state :: "nat CoverArtCache" where
  "demo_state = setTrackDAO (Some demo_trackdao) (setCoverArtDAO (Some demo_coverdao) demo_fresh)"

text \<open>Only the metadata store set.\<close>

definition demo_no_trackdao :: "nat CoverArtCache" where
  "demo_no_trackdao = setCoverArtDAO (Some demo_coverdao) demo_fresh"

text \<open>Both stores set, and a cover already found for track 1 waiting in the queue.\<close>

definition demo_pending :: "nat CoverArtCache" where
  "demo_pending =
     demo_state\<lparr>m_queueOfUpdates := Mapping.update 1 (''/music/old.jpg'', ''4'') Mapping.empty\<rparr>"

text \<open>A request for track 1 whose stored record has no cover yet.\<close>

definition demo_request :: CoverInfo where
  "demo_request =
     \<lparr>trackId = 1, coverLocation = [], hash = [], trackLocation = ''/music/a.mp3''\<rparr>"

text \<open>A request for track 1 that names the cover file and its hash.\<close>

definition demo_request_known :: CoverInfo where
  "demo_request_known =
     \<lparr>trackId = 1, coverLocation = ''/music/cover.jpg'', hash = ''9'',
      trackLocation = ''/music/a.mp3''\<rparr>"

text \<open>What the search jobs for the three tracks return, at natural size.\<close>

definition demo_found :: "int \<Rightarrow> nat FutureResult" where
  "demo_found tid = fst (searchImage demo_env (getCoverArtInfo demo_coverdao tid) null_size False)"

text \<open>
  The same library with a resize that fails on the embedded cover of track 2: it gives the
  null image for the image 7 and leaves every other image as it is.
\<close>

definition demo_env_null_resize :: "nat env" where
  "demo_env_null_resize =
     demo_env\<lparr>maybeResizeImage := (\<lambda>img n. if img = Some 7 then None else img)\<rparr>"


section \<open>Facts about keys and about the small library\<close>

lemma string_of_nat_digit: "n < 10 \<Longrightarrow> string_of_nat n = [''0123456789'' ! n]"
  by (simp add: string_of_nat.simps)

lemma makeCacheKey_null_size: "makeCacheKey h null_size = ''CoverArtCache_'' @ h @ ''_0x0''"
  by (simp add: makeCacheKey_def null_size_def QString_number_def string_of_nat_digit)

text \<open>No hash is its own composite key: the key is at least 18 characters longer.\<close>

lemma makeCacheKey_neq_hash: "makeCacheKey h sz \<noteq> h"
proof
  assume "makeCacheKey h sz = h"
  then have "length (makeCacheKey h sz) = length h" by simp
  then show False by (simp add: makeCacheKey_def)
qed

lemma QSize_isNull_null_size: "QSize_isNull null_size"
  by (simp add: QSize_isNull_def null_size_def)

lemma pendingOverride_trackId: "trackId (pendingOverride s info) = trackId info"
  by (simp add: pendingOverride_def split: option.splits)

lemma pendingOverride_trackLocation: "trackLocation (pendingOverride s info) = trackLocation info"
  by (simp add: pendingOverride_def split: option.splits)


text \<open>
  On a miss, \<^verbatim>\<open>changeCoverArt\<close> hands the resized image to the pixmap cache under the
  hash itself, whatever the utilities and the cache policy are.
\<close>

lemma changeCoverArt_inserts_at_hash:
  assumes "m_pCoverArtDAO s = Some cdao" and "m_pTrackDAO s = Some tdao"
    and "1 \<le> tid" and "newCoverLocation \<noteq> []"
    and "(if newCoverLocation = ''ID3TAG''
          then extractEmbeddedCover e (getTrackLocation tdao tid)
          else QImage_load e newCoverLocation) = Some p"
    and "h = calculateHash e (maybeResizeImage e (Some p) kMaxCoverSize)"
    and "pixmapCache s h = None"
  shows "pixmapCache (snd (changeCoverArt e tid newCoverLocation s)) =
           snd (QPixmapCache_insert e h (maybeResizeImage e (Some p) kMaxCoverSize) (pixmapCache s))"
  using assms
  by (simp add: changeCoverArt_def called_def emit_def Let_def QPixmapCache_find_def
      convertFromImage_def split: if_splits prod.splits)

text \<open>
  The two completion slots on a result with no image: \<^verbatim>\<open>imageLoaded\<close> leaves the pixmap
  cache alone; \<^verbatim>\<open>imageFound\<close>, on a miss, hands the null pixmap to it.
\<close>

lemma imageLoaded_null_image:
  "res_img res = None \<Longrightarrow> pixmapCache (imageLoaded e res s) = pixmapCache s"
  by (simp add: imageLoaded_def emit_def Let_def split: prod.splits)

lemma updateDB_pixmapCache: "pixmapCache (updateDB force s) = pixmapCache s"
  by (simp add: updateDB_def called_def Let_def split: option.splits)

lemma imageFound_null_image:
  assumes "res_img res = None"
    and "pixmapCache s (makeCacheKey (res_hash res) (res_croppedSize res)) = None"
  shows "pixmapCache (imageFound e res s) =
     snd (QPixmapCache_insert e (makeCacheKey (res_hash res) (res_croppedSize res)) None
            (pixmapCache s))"
  using assms
  by (simp add: imageFound_def emit_def Let_def QPixmapCache_find_def convertFromImage_def
      updateDB_pixmapCache split: prod.splits)

lemmas demo_defs = demo_env_def demo_coverdao_def demo_trackdao_def demo_fresh_def
  demo_state_def demo_no_trackdao_def demo_pending_def demo_request_def
  demo_request_known_def CoverArtCache_new_def setCoverArtDAO_def setTrackDAO_def


section \<open>The key under which changeCoverArt caches\<close>

text \<open>
  C1: the claim is that \<^verbatim>\<open>changeCoverArt\<close>, given a location that decodes, stores the
  bitmap under the natural-size key built from (hash, 0, 0), so that the next
  \<^verbatim>\<open>requestPixmap\<close> for that hash and a null size finds it. The code looks up and inserts
  under the hash alone. In the small library, changing the cover of track 1 to
  \<^verbatim>\<open>/music/cover.jpg\<close> succeeds and leaves the bitmap under the key \<^verbatim>\<open>9\<close>; the key
  \<^verbatim>\<open>CoverArtCache_9_0x0\<close>, the one every other method builds, stays absent, and the
  following cached-only request for hash 9 at null size comes back empty.
\<close>

theorem changeCoverArt_caches_under_bare_hash:
  "fst (changeCoverArt demo_env 1 ''/music/cover.jpg'' demo_state) = True
   \<and> pixmapCache (snd (changeCoverArt demo_env 1 ''/music/cover.jpg'' demo_state)) ''9''
       = Some (Some 9)
   \<and> pixmapCache (snd (changeCoverArt demo_env 1 ''/music/cover.jpg'' demo_state))
        (makeCacheKey ''9'' null_size) = None
   \<and> fst (requestPixmap demo_env demo_request_known null_size True False
        (snd (changeCoverArt demo_env 1 ''/music/cover.jpg'' demo_state))) = None"
  by (simp add: changeCoverArt_def requestPixmap_def pendingOverride_def demo_defs called_def
      emit_def QPixmapCache_find_def convertFromImage_def kMaxCoverSize_def string_of_nat_digit
      makeCacheKey_null_size Let_def)

section \<open>A second discovery for a track with a pending update\<close>

text \<open>
  C2, as the code has it: when a search job completes for a track that already has an
  entry in the queue of updates, \<^verbatim>\<open>imageFound\<close> leaves the queue exactly as it was, so
  the earlier discovery stays until the flush, and no store is called.
\<close>

theorem imageFound_keeps_pending:
  "Mapping.lookup (m_queueOfUpdates s) (res_trackId res) = Some upd \<Longrightarrow>
     m_queueOfUpdates (imageFound e res s) = m_queueOfUpdates s
     \<and> calls (imageFound e res s) = calls s"
  by (simp add: imageFound_def emit_def Let_def split: prod.splits)

text \<open>
  C2 as stated fails: track 1 has the pending pair (\<^verbatim>\<open>/music/old.jpg\<close>, 4); the search
  job finds \<^verbatim>\<open>/music/cover.jpg\<close> with hash 9; after the completion the entry of track 1
  is not the new pair.
\<close>

theorem imageFound_overwrites_counterexample:
  "Mapping.lookup (m_queueOfUpdates (imageFound demo_env (demo_found 1) demo_pending)) 1
     \<noteq> Some (res_coverLocation (demo_found 1), res_hash (demo_found 1))"
  by (simp add: imageFound_def demo_found_def searchImage_def demo_defs emit_def
      QPixmapCache_find_def convertFromImage_def kMaxCoverSize_def string_of_nat_digit
      makeCacheKey_null_size Let_def null_size_def QSize_isNull_def)

text \<open>The same completion, through the theorem: the old pair is still there.\<close>

theorem imageFound_keeps_pending_witness:
  "Mapping.lookup (m_queueOfUpdates demo_pending) (res_trackId (demo_found 1))
       = Some (''/music/old.jpg'', ''4'')
   \<and> m_queueOfUpdates (imageFound demo_env (demo_found 1) demo_pending)
       = m_queueOfUpdates demo_pending
   \<and> calls (imageFound demo_env (demo_found 1) demo_pending) = calls demo_pending"
proof -
  have h: "Mapping.lookup (m_queueOfUpdates demo_pending) (res_trackId (demo_found 1))
             = Some (''/music/old.jpg'', ''4'')"
    by (simp add: demo_found_def searchImage_def demo_defs Let_def split: prod.splits)
  show ?thesis using h imageFound_keeps_pending [OF h, of demo_env] by simp
qed

section \<open>changeCoverArt on a location that does not decode\<close>

text \<open>
  C3, as the code has it: with a valid track id, both stores set and a non-empty location
  whose decode gives the null image, \<^verbatim>\<open>changeCoverArt\<close> returns false; the pixmap cache,
  the set of running ids, the signals and the dispatched jobs are as before, and neither
  \<^verbatim>\<open>saveCoverArt\<close> nor \<^verbatim>\<open>updateCoverArt\<close> is called (the only calls are the read of the
  track location and the decode itself). The queue of updates has lost the entry of this
  track, which is removed before the decode is tried; its other entries are as before.
\<close>

theorem changeCoverArt_null_decode:
  assumes "m_pCoverArtDAO s = Some cdao" and "m_pTrackDAO s = Some tdao"
    and "1 \<le> tid" and "newCoverLocation \<noteq> []"
    and "(if newCoverLocation = ''ID3TAG''
          then extractEmbeddedCover e (getTrackLocation tdao tid)
          else QImage_load e newCoverLocation) = None"
  shows "changeCoverArt e tid newCoverLocation s =
     (False,
      s\<lparr>m_queueOfUpdates := Mapping.delete tid (m_queueOfUpdates s),
        calls := calls s @
          (if newCoverLocation = ''ID3TAG''
           then [TrackDAO_getTrackLocation tid,
                 Utils_extractEmbeddedCover (getTrackLocation tdao tid)]
           else [QImage_fromFile newCoverLocation])\<rparr>)"
  using assms by (simp add: changeCoverArt_def called_def Let_def split: if_splits)

text \<open>
  C3 as stated fails: track 1 has a pending update, \<^verbatim>\<open>/music/broken.jpg\<close> does not
  decode; the call returns false and the pending update of track 1 is gone.
\<close>

theorem changeCoverArt_null_decode_counterexample:
  "fst (changeCoverArt demo_env 1 ''/music/broken.jpg'' demo_pending) = False
   \<and> Mapping.lookup (m_queueOfUpdates demo_pending) 1 = Some (''/music/old.jpg'', ''4'')
   \<and> Mapping.lookup
        (m_queueOfUpdates (snd (changeCoverArt demo_env 1 ''/music/broken.jpg'' demo_pending))) 1
       = None"
  by (simp add: changeCoverArt_def demo_defs called_def Let_def)

theorem changeCoverArt_null_decode_witness:
  "changeCoverArt demo_env 1 ''/music/broken.jpg'' demo_pending =
     (False,
      demo_pending\<lparr>m_queueOfUpdates := Mapping.delete 1 (m_queueOfUpdates demo_pending),
        calls := calls demo_pending @ [QImage_fromFile ''/music/broken.jpg'']\<rparr>)"
  using changeCoverArt_null_decode
    [of demo_pending demo_coverdao demo_trackdao 1 "''/music/broken.jpg''" demo_env]
  by (simp add: demo_defs)

section \<open>A forced flush of an empty queue\<close>

text \<open>
  C4, as the code has it: \<^verbatim>\<open>updateDB(true)\<close> on an empty queue calls no store only when
  one of the two stores is unset. With both set it calls the batched \<^verbatim>\<open>saveCoverArt\<close>
  once, with the empty batch, then the batched \<^verbatim>\<open>updateCoverArt\<close> once, with the set
  the first call returned; the queue is empty afterwards.
\<close>

theorem forced_flush_empty:
  assumes "m_queueOfUpdates s = Mapping.empty"
  shows "(m_pCoverArtDAO s = Some cdao \<and> m_pTrackDAO s = Some tdao \<longrightarrow>
            calls (updateDB True s) =
              calls s @ [CoverArtDAO_saveCoverArtBatch Mapping.empty,
                         TrackDAO_updateCoverArtBatch (saveCoverArtBatch cdao Mapping.empty)]
            \<and> m_queueOfUpdates (updateDB True s) = Mapping.empty)
       \<and> (m_pCoverArtDAO s = None \<or> m_pTrackDAO s = None \<longrightarrow> updateDB True s = s)"
  using assms by (auto simp add: updateDB_def called_def Let_def split: option.splits)

text \<open>
  C4 as stated fails: with both stores set and nothing pending, the forced flush makes
  two calls.
\<close>

theorem forced_flush_empty_counterexample:
  "m_queueOfUpdates demo_state = Mapping.empty
   \<and> calls demo_state = []
   \<and> calls (updateDB True demo_state) =
       [CoverArtDAO_saveCoverArtBatch Mapping.empty, TrackDAO_updateCoverArtBatch {}]"
  by (simp add: updateDB_def demo_defs called_def Let_def)

text \<open>Both halves of the theorem: the state with both stores set, and the fresh one.\<close>

theorem forced_flush_empty_witness:
  "m_queueOfUpdates demo_state = Mapping.empty
   \<and> m_pCoverArtDAO demo_state = Some demo_coverdao \<and> m_pTrackDAO demo_state = Some demo_trackdao
   \<and> calls (updateDB True demo_state) =
       calls demo_state @ [CoverArtDAO_saveCoverArtBatch Mapping.empty,
                    TrackDAO_updateCoverArtBatch (saveCoverArtBatch demo_coverdao Mapping.empty)]
   \<and> m_queueOfUpdates (updateDB True demo_state) = Mapping.empty
   \<and> m_queueOfUpdates demo_fresh = Mapping.empty
   \<and> m_pCoverArtDAO demo_fresh = None
   \<and> updateDB True demo_fresh = demo_fresh"
proof -
  have h1: "m_queueOfUpdates demo_state = Mapping.empty" by (simp add: demo_defs)
  have h2: "m_queueOfUpdates demo_fresh = Mapping.empty" by (simp add: demo_defs)
  have d: "m_pCoverArtDAO demo_state = Some demo_coverdao
           \<and> m_pTrackDAO demo_state = Some demo_trackdao"
    by (simp add: demo_defs)
  have n: "m_pCoverArtDAO demo_fresh = None" by (simp add: demo_defs)
  show ?thesis
    using h1 h2 d n forced_flush_empty [OF h1, of demo_coverdao demo_trackdao]
      forced_flush_empty [OF h2, of demo_coverdao demo_trackdao]
    by simp
qed

section \<open>A completion with no image\<close>

text \<open>
  C5: the claim is that a completion of either kind inserts into the pixmap cache only on
  a miss with a non-null image. \<^verbatim>\<open>imageLoaded\<close> tests both; \<^verbatim>\<open>imageFound\<close> tests the
  miss alone. The search job for track 3 finds nothing: its image is null and its hash is
  empty. On the empty cache \<^verbatim>\<open>imageFound\<close> then inserts the null pixmap under
  \<^verbatim>\<open>CoverArtCache__0x0\<close>, where \<^verbatim>\<open>imageLoaded\<close>, given the same result, inserts nothing.
\<close>

theorem imageFound_inserts_null_pixmap:
  "res_img (demo_found 3) = None
   \<and> pixmapCache demo_state (makeCacheKey (res_hash (demo_found 3)) null_size) = None
   \<and> pixmapCache (imageFound demo_env (demo_found 3) demo_state) ''CoverArtCache__0x0''
       = Some None
   \<and> pixmapCache (imageLoaded demo_env (demo_found 3) demo_state) ''CoverArtCache__0x0'' = None"
  by (simp add: imageFound_def imageLoaded_def demo_found_def searchImage_def demo_defs emit_def
      updateDB_def called_def QPixmapCache_find_def convertFromImage_def kMaxCoverSize_def
      makeCacheKey_null_size Let_def QSize_isNull_null_size)

section \<open>Requests for a track whose job is running\<close>



section \<open>Which job a request dispatches\<close>

text \<open>
  C7: a request with a store, a valid id not running, a cache miss and \<^verbatim>\<open>onlyCached\<close>
  false dispatches exactly one job. With \<open>info\<close> the request after the pending update,
  if any, has replaced its location and hash, the job is the search job on the record the
  metadata store gives for the track when the hash is empty, or the location is not
  \<^verbatim>\<open>ID3TAG\<close> and no file exists there; in every other case it is the load job on the
  id, location, hash and track location of \<open>info\<close>.
\<close>

theorem job_kind:
  assumes "m_pCoverArtDAO s = Some cdao" and "1 \<le> trackId requestInfo"
    and "trackId requestInfo \<notin> m_runningIds s"
    and "info = pendingOverride s requestInfo"
    and "\<not> fst (QPixmapCache_find (makeCacheKey (hash info) croppedSize) (pixmapCache s))"
  shows "dispatched (snd (requestPixmap e requestInfo croppedSize False issueRepaint s)) =
     dispatched s @
       [if hash info = [] \<or>
           (coverLocation info \<noteq> ''ID3TAG'' \<and> \<not> QFile_exists_at e (coverLocation info))
        then SearchJob (getCoverArtInfo cdao (trackId requestInfo)) croppedSize issueRepaint
        else LoadJob \<lparr>trackId = trackId requestInfo, coverLocation = coverLocation info,
                      hash = hash info, trackLocation = trackLocation requestInfo,
                      trackDirectory = [], trackBaseName = [], album = []\<rparr>
               croppedSize issueRepaint]"
  using assms
  by (auto simp add: requestPixmap_def called_def Let_def pendingOverride_trackId
      pendingOverride_trackLocation split: option.splits prod.splits if_splits bool.splits)

text \<open>
  Both kinds in the small library: the request with an empty hash gets the search job, the
  request that names the existing cover file and its hash gets the load job.
\<close>

theorem job_kind_witness:
  "dispatched (snd (requestPixmap demo_env demo_request null_size False False demo_state)) =
     [SearchJob (getCoverArtInfo demo_coverdao 1) null_size False]
   \<and> dispatched (snd (requestPixmap demo_env demo_request_known null_size False False demo_state)) =
     [LoadJob \<lparr>trackId = 1, coverLocation = ''/music/cover.jpg'', hash = ''9'',
               trackLocation = ''/music/a.mp3'', trackDirectory = [], trackBaseName = [],
               album = []\<rparr> null_size False]"
proof -
  have d: "m_pCoverArtDAO demo_state = Some demo_coverdao" by (simp add: demo_defs)
  have r: "trackId demo_request_known \<notin> m_runningIds demo_state"
      "trackId demo_request \<notin> m_runningIds demo_state"
    by (simp_all add: demo_defs)
  have v: "1 \<le> trackId demo_request_known" "1 \<le> trackId demo_request"
    by (simp_all add: demo_defs)
  have p1: "demo_request = pendingOverride demo_state demo_request"
    and p2: "demo_request_known = pendingOverride demo_state demo_request_known"
    by (simp_all add: demo_defs pendingOverride_def)
  have m1: "\<not> fst (QPixmapCache_find (makeCacheKey (hash demo_request) null_size)
                    (pixmapCache demo_state))"
    and m2: "\<not> fst (QPixmapCache_find (makeCacheKey (hash demo_request_known) null_size)
                    (pixmapCache demo_state))"
    by (simp_all add: demo_defs QPixmapCache_find_def)
  show ?thesis
    using job_kind [OF d v(2) r(2) p1 m1, of demo_env False]
      job_kind [OF d v(1) r(1) p2 m2, of demo_env False]
    by (simp add: demo_defs)
qed

section \<open>The search job looks at the embedded cover first\<close>

text \<open>
  C8, as the code has it: when the track's file has an embedded cover, and resizing it to
  the maximum side gives an image that is not null, the result of the search job has the
  location \<^verbatim>\<open>ID3TAG\<close>, the hash of the resized embedded cover, and that resized
  cover as its image (cropped to the requested size when that size is not null); the job
  calls the embedded extraction, the resize and the hash (and the crop), and never the
  search in the track's directory.
\<close>

theorem searchImage_embedded_first:
  assumes "extractEmbeddedCover e (trackLocation coverInfo) = Some p"
    and "maybeResizeImage e (Some p) kMaxCoverSize = Some q"
  shows "res_coverLocation (fst (searchImage e coverInfo croppedSize issueRepaint)) = ''ID3TAG''
     \<and> res_hash (fst (searchImage e coverInfo croppedSize issueRepaint)) = calculateHash e (Some q)
     \<and> res_img (fst (searchImage e coverInfo croppedSize issueRepaint)) =
           (if QSize_isNull croppedSize then Some q else cropImage e (Some q) croppedSize)
     \<and> snd (searchImage e coverInfo croppedSize issueRepaint) =
           [Utils_extractEmbeddedCover (trackLocation coverInfo),
            Utils_maybeResizeImage kMaxCoverSize, Utils_calculateHash]
           @ (if QSize_isNull croppedSize then [] else [Utils_cropImage croppedSize])
     \<and> Utils_searchInTrackDirectory (trackDirectory coverInfo) (trackBaseName coverInfo)
           (album coverInfo) \<notin> set (snd (searchImage e coverInfo croppedSize issueRepaint))"
  using assms by (simp add: searchImage_def Let_def)

text \<open>
  C8 as stated fails: the test for a null image after the embedded extraction is made a
  second time, after the resize, and on its own. Track 2 has the embedded cover 7 and a
  cover file in its directory that decodes to 9; where the resize of 7 gives the null
  image, the job searches the directory and returns the file's location and the image 9
  in place of \<^verbatim>\<open>ID3TAG\<close> and the embedded cover.
\<close>

theorem searchImage_embedded_first_counterexample:
  "extractEmbeddedCover demo_env_null_resize (trackLocation (getCoverArtInfo demo_coverdao 2))
       = Some 7
   \<and> res_coverLocation
        (fst (searchImage demo_env_null_resize (getCoverArtInfo demo_coverdao 2) null_size False))
       \<noteq> ''ID3TAG''
   \<and> res_coverLocation
        (fst (searchImage demo_env_null_resize (getCoverArtInfo demo_coverdao 2) null_size False))
       = ''/music/cover.jpg''
   \<and> res_img
        (fst (searchImage demo_env_null_resize (getCoverArtInfo demo_coverdao 2) null_size False))
       = Some 9
   \<and> Utils_searchInTrackDirectory ''/music'' ''b'' ''Album''
       \<in> set (snd (searchImage demo_env_null_resize (getCoverArtInfo demo_coverdao 2)
                      null_size False))"
  by (simp add: searchImage_def demo_env_null_resize_def demo_defs Let_def
      QSize_isNull_null_size kMaxCoverSize_def)

text \<open>
  With the resize that keeps the image, the same track: the job returns 7 under
  \<^verbatim>\<open>ID3TAG\<close> and makes three calls, though the directory holds a cover file.
\<close>

theorem searchImage_embedded_first_witness:
  "extractEmbeddedCover demo_env (trackLocation (getCoverArtInfo demo_coverdao 2)) = Some 7
   \<and> maybeResizeImage demo_env (Some 7) kMaxCoverSize = Some 7
   \<and> searchInTrackDirectory demo_env (trackDirectory (getCoverArtInfo demo_coverdao 2))
        (trackBaseName (getCoverArtInfo demo_coverdao 2)) (album (getCoverArtInfo demo_coverdao 2))
       = ''/music/cover.jpg''
   \<and> QImage_load demo_env ''/music/cover.jpg'' = Some 9
   \<and> res_coverLocation (fst (searchImage demo_env (getCoverArtInfo demo_coverdao 2) null_size False))
       = ''ID3TAG''
   \<and> res_img (fst (searchImage demo_env (getCoverArtInfo demo_coverdao 2) null_size False)) = Some 7
   \<and> snd (searchImage demo_env (getCoverArtInfo demo_coverdao 2) null_size False) =
       [Utils_extractEmbeddedCover ''/music/b.mp3'', Utils_maybeResizeImage 300, Utils_calculateHash]"
proof -
  have h1: "extractEmbeddedCover demo_env (trackLocation (getCoverArtInfo demo_coverdao 2)) = Some 7"
    by (simp add: demo_defs)
  have h2: "maybeResizeImage demo_env (Some 7) kMaxCoverSize = Some 7"
    by (simp add: demo_defs)
  show ?thesis
    using h1 h2 searchImage_embedded_first [OF h1 h2, of null_size False]
    by (simp add: demo_defs QSize_isNull_null_size kMaxCoverSize_def)
qed

section \<open>Invalid track ids\<close>

text \<open>
  C9: for a track id below 1, \<^verbatim>\<open>requestPixmap\<close> returns the null pixmap and
  \<^verbatim>\<open>changeCoverArt\<close> returns false, and both leave the whole state as it was: no member
  changes, no signal is emitted, no job is dispatched, and the list of calls made on the
  stores, the image utilities and the file system does not grow.
\<close>

theorem invalid_trackId_rejected:
  "tid < 1 \<Longrightarrow> trackId info = tid \<Longrightarrow>
     requestPixmap e info croppedSize onlyCached issueRepaint s = (None, s)
     \<and> changeCoverArt e tid newCoverLocation s = (False, s)"
  by (simp add: requestPixmap_def changeCoverArt_def split: option.splits)

theorem invalid_trackId_rejected_witness:
  "(0::int) < 1 \<and> trackId (demo_request\<lparr>trackId := 0\<rparr>) = 0
   \<and> requestPixmap demo_env (demo_request\<lparr>trackId := 0\<rparr>) null_size False False demo_state
       = (None, demo_state)
   \<and> changeCoverArt demo_env 0 ''/music/cover.jpg'' demo_state = (False, demo_state)"
  using invalid_trackId_rejected
    [of 0 "demo_request\<lparr>trackId := 0\<rparr>" demo_env null_size False False demo_state
      "''/music/cover.jpg''"]
  by simp

section \<open>A request needs the metadata store only\<close>



end
